theory Spec2Isabelle
  imports Main "HOL-Library.Sublist"
begin

section \<open>ERC721Bridge: data model\<close>

text \<open>
  The development embeds \<^verbatim>\<open>packages/bridge-ui-v2/src/libs/bridge/ERC721Bridge.ts\<close>.
  Addresses and hashes are the hex strings of the contract-call library, bigints and
  integral numbers are \<open>int\<close>, an optional value (\<^verbatim>\<open>undefined\<close>) is \<open>None\<close>.
\<close>

type_synonym address = string
type_synonym hash = string

text \<open>An error object thrown by a collaborator: its \<^verbatim>\<open>name\<close> and \<^verbatim>\<open>message\<close>.\<close>

datatype jsError = JsError (errName: string) (errMessage: string)

text \<open>
  The errors the class raises to its caller. \<open>Thrown\<close> is a collaborator's error passed
  on unchanged, \<open>Error\<close> is \<^verbatim>\<open>new Error(msg)\<close>; the wrappers keep their cause.
\<close>

datatype error =
    Thrown jsError
  | Error string
  | BridgePausedError string
  | NoCanonicalInfoFoundError string
  | NotApprovedError string
  | NoApprovalRequiredError string
  | UserRejectedRequestError jsError
  | SendERC721Error string error
  | ProcessMessageError string jsError
  | ApproveError string jsError

text \<open>A number that \<^verbatim>\<open>Number\<close> makes of a bigint: an integer a double holds, or an infinity.\<close>

datatype jsNumber = Num int | Infinity | NegInfinity

text \<open>\<^verbatim>\<open>MessageStatus\<close> of \<^verbatim>\<open>./types\<close>; only \<open>NEW\<close> is compared against.\<close>

datatype MessageStatus = NEW | RETRIABLE | DONE | FAILED

text \<open>The wallet client: \<^verbatim>\<open>wallet.account\<close> (its address) and \<^verbatim>\<open>wallet.chain\<close> (its id), either of
  which may be undefined.\<close>

record walletClient =
  account :: "address option"
  chain :: "int option"

text \<open>\<^verbatim>\<open>ERC721BridgeArgs\<close>, the fields the class destructures.\<close>

record ERC721BridgeArgs =
  to :: address
  wallet :: "walletClient option"
  srcChainId :: int
  destChainId :: int
  token :: address
  fee :: int
  tokenVaultAddress :: address
  isTokenAlreadyDeployed :: bool
  memo :: "string option"
  tokenIds :: "int list"
  amounts :: "int list"

text \<open>\<^verbatim>\<open>NFTBridgeTransferOp\<close>, the transfer descriptor; its fields carry the prefix \<open>op_\<close>
  to keep them apart from the arguments' fields of the same name.\<close>

record NFTBridgeTransferOp =
  op_destChainId :: int
  op_to :: address
  op_token :: address
  op_gasLimit :: int
  op_fee :: int
  op_refundTo :: address
  op_memo :: string
  op_tokenIds :: "int list"
  op_amounts :: "int list"

text \<open>The message envelope, with the three fields \<^verbatim>\<open>claim\<close> reads, and \<^verbatim>\<open>ClaimArgs\<close>.\<close>

record message =
  msg_srcChainId :: int
  msg_destChainId :: int
  msg_gasLimit :: int

record ClaimArgs =
  msgHash :: hash
  message :: message

datatype abi = bridgeABI | erc721ABI | erc721VaultABI

datatype callArgs =
    GetApprovedArgs "int option"
  | SendTokenArgs NFTBridgeTransferOp
  | ProcessMessageArgs message string
  | ApproveArgs address "int option"

text \<open>The parameter object of \<^verbatim>\<open>readContract\<close>, \<^verbatim>\<open>simulateContract\<close> and \<^verbatim>\<open>writeContract\<close>;
  a key the call site leaves out is \<open>None\<close>.\<close>

record contractCall =
  call_address :: address
  call_abi :: abi
  functionName :: string
  args :: callArgs
  chainId :: "int option"
  call_value :: "int option"
  gas :: "int option"

text \<open>The handle \<^verbatim>\<open>getContract\<close> returns.\<close>

record contract =
  contract_address :: address
  contract_abi :: abi

datatype canonicalInfo = CanonicalInfo (info_chainId: int) (info_address: address)

text \<open>\<^verbatim>\<open>bridgeService\<close> of \<^verbatim>\<open>$config\<close>: the three constants the class reads.\<close>

record bridgeServiceConfig =
  noERC721TokenDeployedGasLimit :: int
  noOwnerGasLimit :: int
  erc721GasLimitThreshold :: int

text \<open>
  The collaborators, as the answers they give: each is asked at most once with a given
  request during one operation, so an answer is a function of the request. \<open>Inl\<close> is a
  rejected promise. \<open>beforeClaiming\<close> is the base class's pre-claim check.
\<close>

record env =
  bridgeService :: bridgeServiceConfig
  isBridgePaused :: "jsError + bool"
  getWalletClient :: "jsError + walletClient"
  readContract :: "contractCall \<Rightarrow> jsError + address"
  simulateContract :: "contractCall \<Rightarrow> jsError + contractCall"
  writeContract :: "contractCall \<Rightarrow> jsError + hash"
  getCanonicalInfoForAddress :: "address \<Rightarrow> int \<Rightarrow> int \<Rightarrow> jsError + canonicalInfo option"
  estimateGas_sendToken :: "address \<Rightarrow> NFTBridgeTransferOp \<Rightarrow> int \<Rightarrow> jsError + int"
  beforeClaiming :: "ClaimArgs \<Rightarrow> jsError + MessageStatus \<times> address"
  encodedSignalProof :: "hash \<Rightarrow> jsNumber \<Rightarrow> jsNumber \<Rightarrow> jsError + string"

text \<open>
  What an operation does to the outside, in program order. \<open>Detached r\<close> is a promise chain
  that is started and not awaited, \<open>r\<close> being how it settles.
\<close>

datatype event =
    Detached "error + unit"
  | GetWalletClient
  | ReadContract contractCall
  | SimulateContract contractCall
  | WriteContract contractCall
  | GetCanonicalInfoForAddress address int int
  | EstimateGas address NFTBridgeTransferOp int
  | BeforeClaiming ClaimArgs
  | EncodedSignalProof hash jsNumber jsNumber

fun is_write :: "event \<Rightarrow> bool" where
  "is_write (WriteContract c) = True"
| "is_write _ = False"

section \<open>Asynchronous operations as results with a trace\<close>

type_synonym ('e, 'a) io = "('e + 'a) \<times> event list"

definition io_return :: "'a \<Rightarrow> ('e, 'a) io" where
  "io_return v = (Inr v, [])"

definition io_throw :: "'e \<Rightarrow> ('e, 'a) io" where
  "io_throw e = (Inl e, [])"

text \<open>An awaited call to a collaborator.\<close>

definition io_call :: "event \<Rightarrow> 'e + 'a \<Rightarrow> ('e, 'a) io" where
  "io_call ev r = (r, [ev])"

text \<open>A promise chain that is started and dropped: the caller goes on whatever it settles to.\<close>

definition io_detached :: "error + unit \<Rightarrow> ('e, unit) io" where
  "io_detached r = (Inr (), [Detached r])"

definition io_bind :: "('e, 'a) io \<Rightarrow> ('a \<Rightarrow> ('e, 'b) io) \<Rightarrow> ('e, 'b) io" where
  "io_bind m f =
     (case m of
        (Inl e, t) \<Rightarrow> (Inl e, t)
      | (Inr v, t) \<Rightarrow> (case f v of (r, t') \<Rightarrow> (r, t @ t')))"

text \<open>\<^verbatim>\<open>try { m } catch (err) { h err }\<close>.\<close>

definition io_catch :: "('e, 'a) io \<Rightarrow> ('e \<Rightarrow> ('f, 'a) io) \<Rightarrow> ('f, 'a) io" where
  "io_catch m h =
     (case m of
        (Inl e, t) \<Rightarrow> (case h e of (r, t') \<Rightarrow> (r, t @ t'))
      | (Inr v, t) \<Rightarrow> (Inr v, t))"

text \<open>A collaborator's error leaving an operation unchanged.\<close>

definition io_raw :: "(jsError, 'a) io \<Rightarrow> (error, 'a) io" where
  "io_raw m = io_catch m (\<lambda>e. io_throw (Thrown e))"

section \<open>Strings\<close>

text \<open>\<^verbatim>\<open>Error.prototype.toString\<close>, which the template \<^verbatim>\<open>`${err}`\<close> calls.\<close>

definition toString :: "jsError \<Rightarrow> string" where
  "toString e =
     (if errName e = [] then errMessage e
      else if errMessage e = [] then errName e
      else errName e @ '': '' @ errMessage e)"

text \<open>\<^verbatim>\<open>String.prototype.includes\<close>.\<close>

fun str_includes :: "string \<Rightarrow> string \<Rightarrow> bool" where
  "str_includes [] sub = (sub = [])"
| "str_includes (c # cs) sub = (prefix sub (c # cs) \<or> str_includes cs sub)"

text \<open>A bigint in a template string, and \<^verbatim>\<open>undefined\<close> there.\<close>

fun string_of_nat :: "nat \<Rightarrow> string" where
  "string_of_nat n =
     (if n < 10 then [''0123456789'' ! n]
      else string_of_nat (n div 10) @ [''0123456789'' ! (n mod 10)])"

definition string_of_bigint :: "int \<Rightarrow> string" where
  "string_of_bigint i = (if i < 0 then ''-'' @ string_of_nat (nat (- i)) else string_of_nat (nat i))"

definition string_of_tokenId :: "int option \<Rightarrow> string" where
  "string_of_tokenId t = (case t of None \<Rightarrow> ''undefined'' | Some i \<Rightarrow> string_of_bigint i)"

text \<open>The number of binary digits of a natural number.\<close>

fun bit_length :: "nat \<Rightarrow> nat" where
  "bit_length n = (if n = 0 then 0 else Suc (bit_length (n div 2)))"

text \<open>
  \<^verbatim>\<open>Number(b)\<close> of a bigint \<open>b\<close>: the double nearest to \<open>b\<close>, a tie going to the even
  significand. Below \<open>2 ^ 53\<close> in magnitude every integer is a double; above, the doubles
  are the multiples of \<open>2 ^ (n - 53)\<close>, \<open>n\<close> being the number of binary digits, and what
  rounds to \<open>2 ^ 1024\<close> or more is an infinity.
\<close>

definition Number :: "int \<Rightarrow> jsNumber" where
  "Number b =
     (let m = nat \<bar>b\<bar>
      in if m < 2 ^ 53 then Num b
         else
           let ulp = 2 ^ (bit_length m - 53);
               q = m div ulp;
               r = m mod ulp;
               q' = (if 2 * r > ulp \<or> (2 * r = ulp \<and> q mod 2 = 1) then q + 1 else q);
               v = q' * ulp
           in if v \<ge> 2 ^ 1024 then (if b < 0 then NegInfinity else Infinity)
              else Num (if b < 0 then - int v else int v))"

text \<open>Truthiness of a string: every string but the empty one.\<close>

definition truthy :: "string \<Rightarrow> bool" where
  "truthy s = (s \<noteq> [])"

text \<open>\<^verbatim>\<open>tokenIds[0]\<close>: \<^verbatim>\<open>undefined\<close> on an empty array.\<close>

definition first_tokenId :: "int list \<Rightarrow> int option" where
  "first_tokenId ids = (case ids of [] \<Rightarrow> None | t # _ \<Rightarrow> Some t)"

text \<open>\<^verbatim>\<open>x.chain.id\<close>: a TypeError when \<^verbatim>\<open>x.chain\<close> is undefined.\<close>

definition chain_id :: "walletClient \<Rightarrow> (jsError, int) io" where
  "chain_id w =
     (case chain w of
        None \<Rightarrow> io_throw (JsError ''TypeError'' ''Cannot read properties of undefined (reading 'id')'')
      | Some i \<Rightarrow> io_return i)"

section \<open>The operations\<close>

text \<open>The continuation of \<^verbatim>\<open>isBridgePaused().then(...)\<close>: it throws inside the chain it belongs to.\<close>

definition pauseCheck :: "env \<Rightarrow> error + unit" where
  "pauseCheck env =
     (case isBridgePaused env of
        Inl e \<Rightarrow> Inl (Thrown e)
      | Inr paused \<Rightarrow> if paused then Inl (BridgePausedError ''Bridge is paused'') else Inr ())"

text \<open>The parameter object of the \<^verbatim>\<open>getApproved\<close> read (lines 48-54).\<close>

definition approvalQuery :: "address \<Rightarrow> int option \<Rightarrow> int \<Rightarrow> contractCall" where
  "approvalQuery tokenAddress tokenId cid =
     \<lparr>call_address = tokenAddress, call_abi = erc721ABI,
      functionName = ''getApproved'', args = GetApprovedArgs tokenId,
      chainId = Some cid, call_value = None, gas = None\<rparr>"

text \<open>\<^verbatim>\<open>requiresApproval\<close> (lines 39-57). The \<^verbatim>\<open>chainId\<close> of its argument is not destructured:
  the chain id is the wallet client's. The answer of the read is returned as it is.\<close>

definition requiresApproval ::
  "env \<Rightarrow> address \<Rightarrow> address \<Rightarrow> int option \<Rightarrow> int \<Rightarrow> (jsError, address) io" where
  "requiresApproval env tokenAddress spenderAddress tokenId argChainId =
     io_bind (io_detached (pauseCheck env)) (\<lambda>_.
     io_bind (io_call GetWalletClient (getWalletClient env)) (\<lambda>client.
     io_bind (chain_id client) (\<lambda>cid.
     io_bind (io_call (ReadContract (approvalQuery tokenAddress tokenId cid))
                (readContract env (approvalQuery tokenAddress tokenId cid))) (\<lambda>requiresApproval.
     io_return requiresApproval))))"

text \<open>\<^verbatim>\<open>_prepareTransaction\<close> (lines 278-322).\<close>

definition prepareTransaction ::
  "env \<Rightarrow> ERC721BridgeArgs \<Rightarrow> (error, contract \<times> NFTBridgeTransferOp) io" where
  "prepareTransaction env a =
     (let tokenVaultContract = \<lparr>contract_address = tokenVaultAddress a, contract_abi = erc721VaultABI\<rparr>
      in case wallet a of
           None \<Rightarrow> io_throw (Error ''Wallet is not connected'')
         | Some w \<Rightarrow>
            (case account w of
               None \<Rightarrow> io_throw (Error ''Wallet is not connected'')
             | Some refundTo \<Rightarrow>
                let gasLimit =
                      (if \<not> isTokenAlreadyDeployed a
                       then noERC721TokenDeployedGasLimit (bridgeService env)
                       else if fee a > 0
                         then noOwnerGasLimit (bridgeService env)
                         else 0);
                    sendERC721Args =
                      \<lparr>op_destChainId = destChainId a, op_to = to a, op_token = token a,
                       op_gasLimit = gasLimit, op_fee = fee a, op_refundTo = refundTo,
                       op_memo = (case memo a of None \<Rightarrow> [] | Some m \<Rightarrow> m),
                       op_tokenIds = tokenIds a, op_amounts = amounts a\<rparr>
                in io_return (tokenVaultContract, sendERC721Args)))"

text \<open>\<^verbatim>\<open>estimateGas\<close> (lines 59-74); the promise of the estimate is returned, hence adopted.\<close>

definition estimateGas :: "env \<Rightarrow> ERC721BridgeArgs \<Rightarrow> (error, int) io" where
  "estimateGas env a =
     io_bind (io_detached (pauseCheck env)) (\<lambda>_.
     io_bind (prepareTransaction env a) (\<lambda>(tokenVaultContract, sendERC721Args).
       let val = op_fee sendERC721Args
       in io_raw (io_call (EstimateGas (contract_address tokenVaultContract) sendERC721Args val)
                    (estimateGas_sendToken env (contract_address tokenVaultContract) sendERC721Args val))))"

text \<open>The handler shared by the three operations' last \<^verbatim>\<open>catch\<close> (lines 143-149, 200-207,
  266-275): the substring test comes first, the operation's own wrapper second.\<close>

definition rethrow :: "(jsError \<Rightarrow> error) \<Rightarrow> jsError \<Rightarrow> (error, 'a) io" where
  "rethrow wrapper err =
     (if str_includes (toString err) ''denied transaction signature''
      then io_throw (UserRejectedRequestError err)
      else io_throw (wrapper err))"

text \<open>\<^verbatim>\<open>bridge\<close>, its first \<^verbatim>\<open>try\<close> (lines 84-111): canonical info, wallet, approval.\<close>

definition bridge_check :: "env \<Rightarrow> ERC721BridgeArgs \<Rightarrow> int option \<Rightarrow> (error, unit) io" where
  "bridge_check env a tokenId =
     io_catch
       (io_bind (io_raw (io_call (GetCanonicalInfoForAddress (token a) (srcChainId a) (destChainId a))
                           (getCanonicalInfoForAddress env (token a) (srcChainId a) (destChainId a)))) (\<lambda>info.
        case info of
          None \<Rightarrow> io_throw (NoCanonicalInfoFoundError ''No canonical info found for token'')
        | Some i \<Rightarrow>
           let canonicalTokenAddress = info_address i
           in (case wallet a of
                 None \<Rightarrow> io_throw (Error ''Wallet is not connected'')
               | Some w \<Rightarrow>
                  (case (account w, chain w) of
                     (Some _, Some cid) \<Rightarrow>
                       if canonicalTokenAddress = token a
                       then io_bind (io_raw (requiresApproval env (token a) (tokenVaultAddress a) tokenId cid))
                              (\<lambda>requireApproval.
                                 if truthy requireApproval
                                 then io_throw (NotApprovedError
                                        (''The token with id '' @ string_of_tokenId tokenId
                                           @ '' is not approved for the token vault''))
                                 else io_return ())
                       else io_return ()
                   | _ \<Rightarrow> io_throw (Error ''Wallet is not connected'')))))
       (\<lambda>err. io_throw (SendERC721Error ''failed to bridge ERC721 token'' err))"

text \<open>The parameter object of the \<^verbatim>\<open>sendToken\<close> calls (lines 118-124 and 131-138): the
  simulation names no chain, the write names the wallet's.\<close>

definition sendTokenCall :: "address \<Rightarrow> NFTBridgeTransferOp \<Rightarrow> int option \<Rightarrow> contractCall" where
  "sendTokenCall vault sendERC721Args cid =
     \<lparr>call_address = vault, call_abi = erc721VaultABI,
      functionName = ''sendToken'', args = SendTokenArgs sendERC721Args,
      chainId = cid, call_value = Some (op_fee sendERC721Args), gas = None\<rparr>"

text \<open>\<^verbatim>\<open>bridge\<close>, its second \<^verbatim>\<open>try\<close> (lines 113-149): the simulation's failure is only printed.\<close>

definition bridge_send :: "env \<Rightarrow> ERC721BridgeArgs \<Rightarrow> contract \<Rightarrow> NFTBridgeTransferOp \<Rightarrow> (error, hash) io" where
  "bridge_send env a tokenVaultContract sendERC721Args =
     io_catch
       (io_bind
          (io_catch
             (io_bind (io_call
                         (SimulateContract (sendTokenCall (contract_address tokenVaultContract) sendERC721Args None))
                         (simulateContract env (sendTokenCall (contract_address tokenVaultContract) sendERC721Args None)))
                (\<lambda>request. io_return ()))
             (\<lambda>err. io_return ())) (\<lambda>_.
        io_bind (case wallet a of
                   None \<Rightarrow> io_throw (JsError ''TypeError'' ''Cannot read properties of undefined (reading 'chain')'')
                 | Some w \<Rightarrow> chain_id w) (\<lambda>cid.
        io_bind (io_call
                   (WriteContract (sendTokenCall (contract_address tokenVaultContract) sendERC721Args (Some cid)))
                   (writeContract env (sendTokenCall (contract_address tokenVaultContract) sendERC721Args (Some cid))))
          (\<lambda>txHash.
        io_return txHash))))
       (rethrow (\<lambda>err. SendERC721Error ''failed to bridge ERC721 token'' (Thrown err)))"

text \<open>\<^verbatim>\<open>bridge\<close> (lines 76-150).\<close>

definition bridge :: "env \<Rightarrow> ERC721BridgeArgs \<Rightarrow> (error, hash) io" where
  "bridge env a =
     io_bind (prepareTransaction env a) (\<lambda>(tokenVaultContract, sendERC721Args).
       let tokenId = first_tokenId (tokenIds a)
       in io_bind (bridge_check env a tokenId) (\<lambda>_.
          bridge_send env a tokenVaultContract sendERC721Args))"

text \<open>The parameter object of the \<^verbatim>\<open>processMessage\<close> calls (lines 165-171, 174-180, 183-188
  and 191-196); \<open>g\<close> is the \<^verbatim>\<open>gas\<close> key, \<open>None\<close> where the object has none.\<close>

definition processMessageCall :: "address \<Rightarrow> message \<Rightarrow> string \<Rightarrow> int option \<Rightarrow> contractCall" where
  "processMessageCall destBridgeAddress msg proof g =
     \<lparr>call_address = destBridgeAddress, call_abi = bridgeABI,
      functionName = ''processMessage'', args = ProcessMessageArgs msg proof,
      chainId = None, call_value = None, gas = g\<rparr>"

text \<open>\<^verbatim>\<open>claim\<close>, the \<^verbatim>\<open>try\<close> of its \<open>NEW\<close> branch (lines 163-207).\<close>

definition claim_process :: "env \<Rightarrow> message \<Rightarrow> string \<Rightarrow> address \<Rightarrow> (error, hash) io" where
  "claim_process env msg proof destBridgeAddress =
     io_catch
       (if msg_gasLimit msg > erc721GasLimitThreshold (bridgeService env)
        then
          io_bind (io_call
                     (SimulateContract (processMessageCall destBridgeAddress msg proof (Some (msg_gasLimit msg))))
                     (simulateContract env (processMessageCall destBridgeAddress msg proof (Some (msg_gasLimit msg)))))
            (\<lambda>request.
          io_call (WriteContract (processMessageCall destBridgeAddress msg proof (Some (msg_gasLimit msg))))
            (writeContract env (processMessageCall destBridgeAddress msg proof (Some (msg_gasLimit msg)))))
        else
          io_bind (io_call
                     (SimulateContract (processMessageCall destBridgeAddress msg proof None))
                     (simulateContract env (processMessageCall destBridgeAddress msg proof None)))
            (\<lambda>request.
          io_call (WriteContract (processMessageCall destBridgeAddress msg proof None))
            (writeContract env (processMessageCall destBridgeAddress msg proof None))))
       (rethrow (ProcessMessageError ''failed to process message''))"

text \<open>\<^verbatim>\<open>claim\<close> (lines 152-215).\<close>

definition claim :: "env \<Rightarrow> ClaimArgs \<Rightarrow> (error, hash) io" where
  "claim env a =
     io_bind (io_raw (io_call (BeforeClaiming a) (beforeClaiming env a))) (\<lambda>(messageStatus, destBridgeAddress).
       let msg = message a;
           src = Number (msg_srcChainId msg);
           dest = Number (msg_destChainId msg)
       in io_bind
            (if messageStatus = NEW
             then io_bind (io_raw (io_call (EncodedSignalProof (msgHash a) src dest)
                                     (encodedSignalProof env (msgHash a) src dest))) (\<lambda>proof.
                    claim_process env msg proof destBridgeAddress)
             else io_throw (Error ''Not implemented''))
            (\<lambda>txHash. io_return ''0x''))"

text \<open>\<^verbatim>\<open>release\<close> (lines 217-220).\<close>

definition release :: "(error, hash) io" where
  "release = io_return ''0x''"

text \<open>The parameter object of the \<^verbatim>\<open>approve\<close> calls (lines 246-252 and 255-261).\<close>

definition approveCall :: "address \<Rightarrow> address \<Rightarrow> int option \<Rightarrow> int \<Rightarrow> contractCall" where
  "approveCall tokenAddress spenderAddress tokenId cid =
     \<lparr>call_address = tokenAddress, call_abi = erc721ABI,
      functionName = ''approve'', args = ApproveArgs spenderAddress tokenId,
      chainId = Some cid, call_value = None, gas = None\<rparr>"

text \<open>\<^verbatim>\<open>approve\<close>, its \<^verbatim>\<open>try\<close> (lines 242-275).\<close>

definition approve_send :: "env \<Rightarrow> address \<Rightarrow> address \<Rightarrow> int option \<Rightarrow> int \<Rightarrow> (error, hash) io" where
  "approve_send env tokenAddress spenderAddress tokenId cid =
     io_catch
       (io_bind (io_call (SimulateContract (approveCall tokenAddress spenderAddress tokenId cid))
                   (simulateContract env (approveCall tokenAddress spenderAddress tokenId cid))) (\<lambda>request.
        io_bind (io_call (WriteContract (approveCall tokenAddress spenderAddress tokenId cid))
                   (writeContract env (approveCall tokenAddress spenderAddress tokenId cid))) (\<lambda>txHash.
        io_return txHash)))
       (rethrow (ApproveError ''failed to approve ERC721 token''))"

text \<open>\<^verbatim>\<open>approve\<close> (lines 222-276).\<close>

definition approve ::
  "env \<Rightarrow> address \<Rightarrow> address \<Rightarrow> walletClient option \<Rightarrow> int list \<Rightarrow> (error, hash) io" where
  "approve env tokenAddress spenderAddress wallet_arg ids =
     (let tokenId = first_tokenId ids
      in case wallet_arg of
           None \<Rightarrow> io_throw (Error ''Wallet is not connected'')
         | Some w \<Rightarrow>
            (case (account w, chain w) of
               (Some _, Some cid) \<Rightarrow>
                 io_bind (io_raw (requiresApproval env tokenAddress spenderAddress tokenId cid))
                   (\<lambda>requireApproval.
                      if \<not> truthy requireApproval
                      then io_throw (NoApprovalRequiredError
                             (''No approval required for the token '' @ string_of_tokenId tokenId))
                      else approve_send env tokenAddress spenderAddress tokenId cid)
             | _ \<Rightarrow> io_throw (Error ''Wallet is not connected'')))"

section \<open>Sample inputs\<close>

definition zeroAddress :: address where
  "zeroAddress = ''0x0000000000000000000000000000000000000000''"

definition vault :: address where
  "vault = ''0x1000777700000000000000000000000000000002''"

definition nft :: address where
  "nft = ''0x5FbDB2315678afecb367f032d93F642f64180aa3''"

definition destBridge :: address where
  "destBridge = ''0x1000777700000000000000000000000000000004''"

definition sample_wallet :: walletClient where
  "sample_wallet = \<lparr>account = Some ''0x70997970C51812dc3A010C7d01b50e0d17dc79C8'', chain = Some 167\<rparr>"

text \<open>A wallet's refusal, as the contract-call library reports it.\<close>

definition rejection :: jsError where
  "rejection = JsError ''TransactionExecutionError''
     ''User rejected the request. Details: User denied transaction signature.''"

text \<open>Collaborators that all answer; \<open>approved\<close> is what \<^verbatim>\<open>getApproved\<close> answers, \<open>canonical\<close> the
  canonical address of every token, \<open>status\<close> the message status.\<close>

definition sample_env :: "address \<Rightarrow> address \<Rightarrow> MessageStatus \<Rightarrow> env" where
  "sample_env approved canonical status =
     \<lparr>bridgeService = \<lparr>noERC721TokenDeployedGasLimit = 2400000, noOwnerGasLimit = 140000,
                        erc721GasLimitThreshold = 2400000\<rparr>,
      isBridgePaused = Inr False,
      getWalletClient = Inr sample_wallet,
      readContract = (\<lambda>c. Inr approved),
      simulateContract = (\<lambda>c. Inr c),
      writeContract = (\<lambda>c. Inr ''0xabc1''),
      getCanonicalInfoForAddress = (\<lambda>a s d. Inr (Some (CanonicalInfo s canonical))),
      estimateGas_sendToken = (\<lambda>a p v. Inr 21000),
      beforeClaiming = (\<lambda>a. Inr (status, destBridge)),
      encodedSignalProof = (\<lambda>h s d. Inr ''0x1234'')\<rparr>"

definition sample_args :: "int list \<Rightarrow> bool \<Rightarrow> int \<Rightarrow> ERC721BridgeArgs" where
  "sample_args ids deployed f =
     \<lparr>to = ''0x70997970C51812dc3A010C7d01b50e0d17dc79C8'', wallet = Some sample_wallet,
      srcChainId = 167, destChainId = 1, token = nft, fee = f,
      tokenVaultAddress = vault, isTokenAlreadyDeployed = deployed, memo = None,
      tokenIds = ids, amounts = []\<rparr>"

definition sample_claim :: "int \<Rightarrow> ClaimArgs" where
  "sample_claim g =
     \<lparr>msgHash = ''0xdead'', message = \<lparr>msg_srcChainId = 1, msg_destChainId = 167, msg_gasLimit = g\<rparr>\<rparr>"


text \<open>The same collaborators with a wallet that refuses to sign.\<close>

definition refusing_env :: "address \<Rightarrow> address \<Rightarrow> MessageStatus \<Rightarrow> env" where
  "refusing_env approved canonical status =
     (sample_env approved canonical status)\<lparr>writeContract := (\<lambda>c. Inl rejection)\<rparr>"

text \<open>The same collaborators with a canonical-token resolver that fails.\<close>

definition unresolved_env :: "jsError \<Rightarrow> env" where
  "unresolved_env e =
     (sample_env zeroAddress nft NEW)\<lparr>getCanonicalInfoForAddress := (\<lambda>a s d. Inl e)\<rparr>"

text \<open>The same collaborators with a token contract whose reads fail, with a pre-claim check
  that fails, with a prover that fails, and with simulations that fail.\<close>

definition unread_env :: env where
  "unread_env = (sample_env zeroAddress nft NEW)\<lparr>readContract := (\<lambda>c. Inl rejection)\<rparr>"

definition unchecked_env :: env where
  "unchecked_env = (sample_env zeroAddress nft NEW)\<lparr>beforeClaiming := (\<lambda>a. Inl rejection)\<rparr>"

definition unproved_env :: env where
  "unproved_env = (sample_env zeroAddress nft NEW)\<lparr>encodedSignalProof := (\<lambda>h s d. Inl rejection)\<rparr>"

definition unsimulated_env :: env where
  "unsimulated_env = (sample_env zeroAddress zeroAddress NEW)\<lparr>simulateContract := (\<lambda>c. Inl rejection)\<rparr>"

text \<open>The descriptor \<^verbatim>\<open>_prepareTransaction\<close> builds from \<open>sample_args ids True 0\<close>.\<close>

definition sample_op :: "int list \<Rightarrow> NFTBridgeTransferOp" where
  "sample_op ids =
     \<lparr>op_destChainId = 1, op_to = ''0x70997970C51812dc3A010C7d01b50e0d17dc79C8'', op_token = nft,
      op_gasLimit = 0, op_fee = 0, op_refundTo = ''0x70997970C51812dc3A010C7d01b50e0d17dc79C8'',
      op_memo = [], op_tokenIds = ids, op_amounts = []\<rparr>"


section \<open>Laws of sequencing\<close>

lemma io_bind_pair [simp]:
  "io_bind (r, t) f = (case r of Inl e \<Rightarrow> (Inl e, t) | Inr v \<Rightarrow> (fst (f v), t @ snd (f v)))"
  by (simp add: io_bind_def split: sum.splits prod.splits)

lemma io_catch_pair [simp]:
  "io_catch (r, t) h = (case r of Inl e \<Rightarrow> (fst (h e), t @ snd (h e)) | Inr v \<Rightarrow> (Inr v, t))"
  by (simp add: io_catch_def split: sum.splits prod.splits)

lemma io_raw_pair [simp]:
  "io_raw (r, t) = (case r of Inl e \<Rightarrow> (Inl (Thrown e), t) | Inr v \<Rightarrow> (Inr v, t))"
  by (simp add: io_raw_def io_throw_def split: sum.splits)

lemma io_bind_unfold:
  "io_bind m f = (case fst m of Inl e \<Rightarrow> (Inl e, snd m) | Inr v \<Rightarrow> (fst (f v), snd m @ snd (f v)))"
  by (cases m) (simp split: sum.splits)

lemma io_raw_unfold:
  "io_raw m = (case fst m of Inl e \<Rightarrow> (Inl (Thrown e), snd m) | Inr v \<Rightarrow> (Inr v, snd m))"
  by (cases m) (simp split: sum.splits)

lemmas io_defs = io_call_def io_throw_def io_return_def io_detached_def

lemma str_includes_iff: "str_includes s sub \<longleftrightarrow> (\<exists>p q. s = p @ sub @ q)"
proof (induction s)
  case Nil
  then show ?case by auto
next
  case (Cons c cs)
  show ?case
  proof
    assume "str_includes (c # cs) sub"
    then consider "prefix sub (c # cs)" | "str_includes cs sub" by auto
    then show "\<exists>p q. c # cs = p @ sub @ q"
    proof cases
      case 1
      then obtain q where "c # cs = sub @ q" by (auto simp: prefix_def)
      then have "c # cs = [] @ sub @ q" by simp
      then show ?thesis by blast
    next
      case 2
      with Cons.IH obtain p q where "cs = p @ sub @ q" by blast
      then have "c # cs = (c # p) @ sub @ q" by simp
      then show ?thesis by blast
    qed
  next
    assume "\<exists>p q. c # cs = p @ sub @ q"
    then obtain p q where pq: "c # cs = p @ sub @ q" by blast
    show "str_includes (c # cs) sub"
    proof (cases p)
      case Nil
      with pq have "prefix sub (c # cs)" by (simp add: prefix_def)
      then show ?thesis by simp
    next
      case (Cons x p')
      with pq have "cs = p' @ sub @ q" by simp
      with Cons.IH have "str_includes cs sub" by blast
      then show ?thesis by simp
    qed
  qed
qed

text \<open>\<^verbatim>\<open>Number\<close> is exact below \<open>2 ^ 53\<close> and rounds to even above.\<close>

lemma Number_exact: "\<bar>b\<bar> < 2 ^ 53 \<Longrightarrow> Number b = Num b"
  by (auto simp: Number_def Let_def)

lemma Number_rounds:
  "Number 9007199254740993 = Num 9007199254740992 \<and> Number 9007199254740995 = Num 9007199254740996"
  by (simp add: Number_def Let_def)

section \<open>The operations, step by step\<close>

lemma requiresApproval_connected:
  assumes "getWalletClient env = Inr client" and "chain client = Some cid"
  shows "requiresApproval env tok sp tid c =
           (readContract env (approvalQuery tok tid cid),
            [Detached (pauseCheck env), GetWalletClient, ReadContract (approvalQuery tok tid cid)])"
  using assms
  by (simp add: requiresApproval_def io_defs chain_id_def split: sum.splits)

lemma requiresApproval_trace:
  "WriteContract c \<notin> set (snd (requiresApproval env tok sp tid n))"
  "SimulateContract c \<notin> set (snd (requiresApproval env tok sp tid n))"
  by (simp_all add: requiresApproval_def io_defs chain_id_def split: sum.splits option.splits)

lemma prepareTransaction_trace: "snd (prepareTransaction env a) = []"
  by (simp add: prepareTransaction_def io_defs Let_def split: option.splits)

lemma prepareTransaction_connected:
  assumes "wallet a = Some w" and "account w = Some acc"
  shows "\<exists>c p. prepareTransaction env a = (Inr (c, p), []) \<and> contract_address c = tokenVaultAddress a
           \<and> op_tokenIds p = tokenIds a"
  using assms
  by (simp add: prepareTransaction_def io_defs Let_def)

lemma prepareTransaction_tokenIds:
  "fst (prepareTransaction env a) = Inr (c, p) \<Longrightarrow> op_tokenIds p = tokenIds a"
  by (auto simp: prepareTransaction_def io_defs Let_def split: option.splits)

lemma prepareTransaction_errors:
  "fst (prepareTransaction env a) = Inl e \<Longrightarrow> e = Error ''Wallet is not connected''"
  by (auto simp: prepareTransaction_def io_defs Let_def split: option.splits)

lemma prepareTransaction_pause_independent:
  "prepareTransaction (env\<lparr>isBridgePaused := p\<rparr>) a = prepareTransaction env a"
  by (simp add: prepareTransaction_def Let_def split: option.splits)

lemma bridge_check_trace:
  "WriteContract c \<notin> set (snd (bridge_check env a tid))"
  "SimulateContract c \<notin> set (snd (bridge_check env a tid))"
  by (auto simp: bridge_check_def io_defs Let_def requiresApproval_trace
        io_raw_unfold [of "requiresApproval _ _ _ _ _"]
        split: sum.splits option.splits if_splits)

lemma bridge_check_ok:
  "fst (bridge_check env a tid) = Inr u \<Longrightarrow> \<exists>w cid. wallet a = Some w \<and> chain w = Some cid"
  by (auto simp: bridge_check_def io_defs Let_def 
        split: sum.splits option.splits if_splits)

lemma bridge_send_unfold:
  assumes "wallet a = Some w" and "chain w = Some cid"
  shows "bridge_send env a c p =
           (case writeContract env (sendTokenCall (contract_address c) p (Some cid)) of
              Inl e \<Rightarrow> fst (rethrow (\<lambda>err. SendERC721Error ''failed to bridge ERC721 token'' (Thrown err)) e
                            :: (error, hash) io)
            | Inr h \<Rightarrow> Inr h,
            [SimulateContract (sendTokenCall (contract_address c) p None),
             WriteContract (sendTokenCall (contract_address c) p (Some cid))])"
  using assms
  by (simp add: bridge_send_def io_defs chain_id_def rethrow_def split: sum.splits)

lemma claim_process_unfold:
  "claim_process env msg sigProof dest =
     (let req = processMessageCall dest msg sigProof
                  (if msg_gasLimit msg > erc721GasLimitThreshold (bridgeService env)
                   then Some (msg_gasLimit msg) else None)
      in case simulateContract env req of
           Inl e \<Rightarrow> (fst (rethrow (ProcessMessageError ''failed to process message'') e :: (error, hash) io),
                     [SimulateContract req])
         | Inr r \<Rightarrow>
            (case writeContract env req of
               Inl e \<Rightarrow> (fst (rethrow (ProcessMessageError ''failed to process message'') e :: (error, hash) io),
                         [SimulateContract req, WriteContract req])
             | Inr h \<Rightarrow> (Inr h, [SimulateContract req, WriteContract req])))"
  by (simp add: claim_process_def io_defs Let_def rethrow_def split: sum.splits)

lemma approve_send_unfold:
  "approve_send env tok sp tid cid =
     (let req = approveCall tok sp tid cid
      in case simulateContract env req of
           Inl e \<Rightarrow> (fst (rethrow (ApproveError ''failed to approve ERC721 token'') e :: (error, hash) io),
                     [SimulateContract req])
         | Inr r \<Rightarrow>
            (case writeContract env req of
               Inl e \<Rightarrow> (fst (rethrow (ApproveError ''failed to approve ERC721 token'') e :: (error, hash) io),
                         [SimulateContract req, WriteContract req])
             | Inr h \<Rightarrow> (Inr h, [SimulateContract req, WriteContract req])))"
  by (simp add: approve_send_def io_defs Let_def rethrow_def split: sum.splits)

lemma rethrow_rejection:
  "str_includes (toString e) ''denied transaction signature'' \<Longrightarrow>
     fst (rethrow wrapper e) = Inl (UserRejectedRequestError e)"
  by (simp add: rethrow_def io_defs)


text \<open>Unfolding everything evaluates an operation on sample inputs.\<close>

lemmas op_defs = requiresApproval_def prepareTransaction_def estimateGas_def bridge_def
  bridge_check_def bridge_send_def claim_def claim_process_def approve_def approve_send_def
  rethrow_def pauseCheck_def chain_id_def first_tokenId_def truthy_def toString_def
  string_of_tokenId_def string_of_bigint_def Number_def Let_def

lemmas sample_defs = sample_env_def sample_args_def sample_claim_def sample_wallet_def
  rejection_def refusing_env_def unresolved_env_def sample_op_def unread_env_def
  unchecked_env_def unproved_env_def unsimulated_env_def

section \<open>Approval check\<close>

text \<open>
  C1. The approval check does not compare anything with the spender: it returns the address
  that \<^verbatim>\<open>getApproved\<close> answers. Whether the vault is approved or nobody is, the value is
  a non-empty string, which the callers' tests take for true.
\<close>

theorem requiresApproval_returns_getter_answer:
  "fst (requiresApproval (sample_env vault nft NEW) nft vault (Some 1) 167) = Inr vault
   \<and> fst (requiresApproval (sample_env zeroAddress nft NEW) nft vault (Some 1) 167) = Inr zeroAddress
   \<and> truthy vault \<and> truthy zeroAddress"
  by (simp add: requiresApproval_def sample_env_def sample_wallet_def io_defs chain_id_def
        truthy_def vault_def zeroAddress_def)

section \<open>Approve\<close>

text \<open>
  C2. With token 1 already approved for the vault (the read answers the vault's address),
  \<^verbatim>\<open>approve\<close> does not fail with the no-approval-required error: it simulates and submits
  the \<^verbatim>\<open>approve\<close> write and returns its hash.
\<close>

theorem approve_already_approved_writes:
  "readContract (sample_env vault nft NEW) (approvalQuery nft (Some 1) 167) = Inr vault
   \<and> approve (sample_env vault nft NEW) nft vault (Some sample_wallet) [1] =
       (Inr ''0xabc1'',
        [Detached (Inr ()), GetWalletClient, ReadContract (approvalQuery nft (Some 1) 167),
         SimulateContract (approveCall nft vault (Some 1) 167),
         WriteContract (approveCall nft vault (Some 1) 167)])"
  by (simp add: op_defs sample_defs io_defs vault_def)


section \<open>Bridge\<close>

text \<open>
  C3, as stated: a native token whose first id nobody is approved for makes \<^verbatim>\<open>bridge\<close> fail
  with the not-approved error. On the sample input the error raised is the send-failed
  wrapper, the not-approved error being its cause.
\<close>

theorem bridge_not_approved_counterexample:
  "getCanonicalInfoForAddress (sample_env zeroAddress nft NEW) nft 167 1 = Inr (Some (CanonicalInfo 167 nft))
   \<and> token (sample_args [1] True 0) = nft
   \<and> readContract (sample_env zeroAddress nft NEW) (approvalQuery nft (Some 1) 167) = Inr zeroAddress
   \<and> zeroAddress \<noteq> tokenVaultAddress (sample_args [1] True 0)
   \<and> fst (bridge (sample_env zeroAddress nft NEW) (sample_args [1] True 0)) =
       Inl (SendERC721Error ''failed to bridge ERC721 token''
             (NotApprovedError ''The token with id 1 is not approved for the token vault''))
   \<and> fst (bridge (sample_env zeroAddress nft NEW) (sample_args [1] True 0)) \<noteq>
       Inl (NotApprovedError ''The token with id 1 is not approved for the token vault'')"
  by (simp add: op_defs sample_defs io_defs vault_def zeroAddress_def)

text \<open>
  C3, amended: with a connected wallet, a native token (its canonical address is the token's)
  and an approval read that answers an address other than the vault's (an address is never
  the empty string), \<^verbatim>\<open>bridge\<close> fails with the send-failed error whose cause is the
  not-approved error, and no write is in its trace.
\<close>

theorem bridge_native_not_approved:
  assumes "wallet a = Some w" and "account w = Some acc" and "chain w = Some cid"
    and "getCanonicalInfoForAddress env (token a) (srcChainId a) (destChainId a) = Inr (Some i)"
    and "info_address i = token a"
    and "getWalletClient env = Inr client" and "chain client = Some cid'"
    and "readContract env (approvalQuery (token a) (first_tokenId (tokenIds a)) cid') = Inr approved"
    and "approved \<noteq> tokenVaultAddress a" and "approved \<noteq> []"
  shows "fst (bridge env a) =
           Inl (SendERC721Error ''failed to bridge ERC721 token''
                 (NotApprovedError (''The token with id '' @ string_of_tokenId (first_tokenId (tokenIds a))
                    @ '' is not approved for the token vault'')))
         \<and> filter is_write (snd (bridge env a)) = []"
proof -
  obtain c p where prep: "prepareTransaction env a = (Inr (c, p), [])"
    using prepareTransaction_connected [OF assms(1,2)] by blast
  have chk: "bridge_check env a (first_tokenId (tokenIds a)) =
          (Inl (SendERC721Error ''failed to bridge ERC721 token''
                 (NotApprovedError (''The token with id '' @ string_of_tokenId (first_tokenId (tokenIds a))
                    @ '' is not approved for the token vault''))),
           [GetCanonicalInfoForAddress (token a) (srcChainId a) (destChainId a),
            Detached (pauseCheck env), GetWalletClient,
            ReadContract (approvalQuery (token a) (first_tokenId (tokenIds a)) cid')])"
    using assms
    by (simp add: bridge_check_def requiresApproval_connected [OF assms(6,7)] io_defs truthy_def)
  show ?thesis
    by (simp add: bridge_def prep chk)
qed

theorem bridge_native_not_approved_witness:
  "fst (bridge (sample_env zeroAddress nft NEW) (sample_args [7] True 0)) =
     Inl (SendERC721Error ''failed to bridge ERC721 token''
           (NotApprovedError ''The token with id 7 is not approved for the token vault''))
   \<and> filter is_write (snd (bridge (sample_env zeroAddress nft NEW) (sample_args [7] True 0))) = []"
  using bridge_native_not_approved [of "sample_args [7] True 0" sample_wallet
      "''0x70997970C51812dc3A010C7d01b50e0d17dc79C8''" 167 "sample_env zeroAddress nft NEW"
      "CanonicalInfo 167 nft" sample_wallet 167 zeroAddress]
  by (simp add: sample_defs first_tokenId_def string_of_tokenId_def string_of_bigint_def
        zeroAddress_def vault_def)

text \<open>
  C7. The descriptor's gas limit: the not-deployed limit when the destination token is not
  deployed, otherwise the no-owner limit when the fee is positive, otherwise zero.
\<close>

theorem prepareTransaction_gasLimit:
  assumes "prepareTransaction env a = (Inr (c, sendArgs), t)"
  shows "op_gasLimit sendArgs =
           (if \<not> isTokenAlreadyDeployed a then noERC721TokenDeployedGasLimit (bridgeService env)
            else if fee a > 0 then noOwnerGasLimit (bridgeService env)
            else 0)"
  using assms
  by (auto simp: prepareTransaction_def io_defs Let_def split: option.splits)

theorem prepareTransaction_gasLimit_witness:
  "op_gasLimit (snd (projr (fst (prepareTransaction (sample_env zeroAddress nft NEW) (sample_args [1] False 5)))))
     = 2400000
   \<and> op_gasLimit (snd (projr (fst (prepareTransaction (sample_env zeroAddress nft NEW) (sample_args [1] True 5)))))
     = 140000
   \<and> op_gasLimit (snd (projr (fst (prepareTransaction (sample_env zeroAddress nft NEW) (sample_args [1] True 0)))))
     = 0"
proof -
  have ok: "\<And>d f. prepareTransaction (sample_env zeroAddress nft NEW) (sample_args [1] d f) =
      (Inr (projr (fst (prepareTransaction (sample_env zeroAddress nft NEW) (sample_args [1] d f)))), [])"
    by (simp add: prepareTransaction_def sample_defs io_defs Let_def)
  have ok': "\<And>d f. prepareTransaction (sample_env zeroAddress nft NEW) (sample_args [1] d f) =
      (Inr (fst (projr (fst (prepareTransaction (sample_env zeroAddress nft NEW) (sample_args [1] d f)))),
            snd (projr (fst (prepareTransaction (sample_env zeroAddress nft NEW) (sample_args [1] d f))))), [])"
    using ok by simp
  show ?thesis
    using prepareTransaction_gasLimit [OF ok' [of False 5]] prepareTransaction_gasLimit [OF ok' [of True 5]]
      prepareTransaction_gasLimit [OF ok' [of True 0]]
    by (simp add: sample_defs)
qed


section \<open>Claim\<close>

text \<open>
  C4. A claim of a \<open>NEW\<close> message whose proof was fetched simulates \<^verbatim>\<open>processMessage\<close> and,
  when the simulation succeeds, writes it. Both calls are given the same parameter object:
  its \<^verbatim>\<open>gas\<close> key is the message's gas limit when that is strictly above the threshold, and
  it has no \<^verbatim>\<open>gas\<close> key otherwise.
\<close>

theorem claim_new_gas:
  assumes "beforeClaiming env a = Inr (NEW, dest)"
    and "encodedSignalProof env (msgHash a) (Number (msg_srcChainId (message a)))
           (Number (msg_destChainId (message a))) = Inr sigProof"
    and "req = \<lparr>call_address = dest, call_abi = bridgeABI, functionName = ''processMessage'',
                 args = ProcessMessageArgs (message a) sigProof, chainId = None, call_value = None,
                 gas = (if msg_gasLimit (message a) > erc721GasLimitThreshold (bridgeService env)
                        then Some (msg_gasLimit (message a)) else None)\<rparr>"
  shows "snd (claim env a) =
           [BeforeClaiming a,
            EncodedSignalProof (msgHash a) (Number (msg_srcChainId (message a)))
              (Number (msg_destChainId (message a))),
            SimulateContract req]
           @ (case simulateContract env req of Inl e \<Rightarrow> [] | Inr r \<Rightarrow> [WriteContract req])"
  using assms
  by (simp add: claim_def io_defs Let_def claim_process_unfold processMessageCall_def
        split: sum.splits)

theorem claim_new_gas_witness:
  "snd (claim (sample_env zeroAddress nft NEW) (sample_claim 2400001)) =
     [BeforeClaiming (sample_claim 2400001), EncodedSignalProof ''0xdead'' (Num 1) (Num 167),
      SimulateContract
        \<lparr>call_address = destBridge, call_abi = bridgeABI, functionName = ''processMessage'',
         args = ProcessMessageArgs \<lparr>msg_srcChainId = 1, msg_destChainId = 167, msg_gasLimit = 2400001\<rparr> ''0x1234'',
         chainId = None, call_value = None, gas = Some 2400001\<rparr>,
      WriteContract
        \<lparr>call_address = destBridge, call_abi = bridgeABI, functionName = ''processMessage'',
         args = ProcessMessageArgs \<lparr>msg_srcChainId = 1, msg_destChainId = 167, msg_gasLimit = 2400001\<rparr> ''0x1234'',
         chainId = None, call_value = None, gas = Some 2400001\<rparr>]
   \<and> snd (claim (sample_env zeroAddress nft NEW) (sample_claim 2400000)) =
     [BeforeClaiming (sample_claim 2400000), EncodedSignalProof ''0xdead'' (Num 1) (Num 167),
      SimulateContract
        \<lparr>call_address = destBridge, call_abi = bridgeABI, functionName = ''processMessage'',
         args = ProcessMessageArgs \<lparr>msg_srcChainId = 1, msg_destChainId = 167, msg_gasLimit = 2400000\<rparr> ''0x1234'',
         chainId = None, call_value = None, gas = None\<rparr>,
      WriteContract
        \<lparr>call_address = destBridge, call_abi = bridgeABI, functionName = ''processMessage'',
         args = ProcessMessageArgs \<lparr>msg_srcChainId = 1, msg_destChainId = 167, msg_gasLimit = 2400000\<rparr> ''0x1234'',
         chainId = None, call_value = None, gas = None\<rparr>]"
  using claim_new_gas [where env = "sample_env zeroAddress nft NEW" and a = "sample_claim 2400001"
      and dest = destBridge and sigProof = "''0x1234''", OF _ _ refl]
    claim_new_gas [where env = "sample_env zeroAddress nft NEW" and a = "sample_claim 2400000"
      and dest = destBridge and sigProof = "''0x1234''", OF _ _ refl]
  by (simp add: sample_defs Number_def)

text \<open>
  C5. When the pre-claim check resolves a status other than \<open>NEW\<close>, \<^verbatim>\<open>claim\<close> throws the
  not-implemented error, and the pre-claim check is all it has called: nothing is written.
\<close>

theorem claim_not_new:
  assumes "beforeClaiming env a = Inr (st, dest)" and "st \<noteq> NEW"
  shows "claim env a = (Inl (Error ''Not implemented''), [BeforeClaiming a])
         \<and> filter is_write (snd (claim env a)) = []"
  using assms
  by (simp add: claim_def io_defs Let_def)

theorem claim_not_new_witness:
  "claim (sample_env zeroAddress nft RETRIABLE) (sample_claim 3000000) =
     (Inl (Error ''Not implemented''), [BeforeClaiming (sample_claim 3000000)])
   \<and> filter is_write (snd (claim (sample_env zeroAddress nft RETRIABLE) (sample_claim 3000000))) = []"
  using claim_not_new [of "sample_env zeroAddress nft RETRIABLE" "sample_claim 3000000" RETRIABLE destBridge]
  by (simp add: sample_defs)

text \<open>
  C8. A claim that goes through (status \<open>NEW\<close>, proof fetched, simulation and write both
  succeed) returns the constant \<^verbatim>\<open>'0x'\<close>, whatever hash the write produced; the write is the
  last thing it did.
\<close>

theorem claim_returns_0x:
  assumes "beforeClaiming env a = Inr (NEW, dest)"
    and "encodedSignalProof env (msgHash a) (Number (msg_srcChainId (message a)))
           (Number (msg_destChainId (message a))) = Inr sigProof"
    and "g = (if msg_gasLimit (message a) > erc721GasLimitThreshold (bridgeService env)
              then Some (msg_gasLimit (message a)) else None)"
    and "simulateContract env (processMessageCall dest (message a) sigProof g) = Inr r"
    and "writeContract env (processMessageCall dest (message a) sigProof g) = Inr txHash"
  shows "fst (claim env a) = Inr ''0x''
         \<and> last (snd (claim env a)) = WriteContract (processMessageCall dest (message a) sigProof g)"
  using assms
  by (simp add: claim_def io_defs Let_def claim_process_unfold split: sum.splits)

theorem claim_returns_0x_witness:
  "writeContract (sample_env zeroAddress nft NEW)
      (processMessageCall destBridge (message (sample_claim 3000000)) ''0x1234'' (Some 3000000)) = Inr ''0xabc1''
   \<and> fst (claim (sample_env zeroAddress nft NEW) (sample_claim 3000000)) = Inr ''0x''
   \<and> last (snd (claim (sample_env zeroAddress nft NEW) (sample_claim 3000000))) =
       WriteContract (processMessageCall destBridge (message (sample_claim 3000000)) ''0x1234'' (Some 3000000))"
  using claim_returns_0x [where env = "sample_env zeroAddress nft NEW" and a = "sample_claim 3000000"
      and dest = destBridge and sigProof = "''0x1234''" and g = "Some 3000000"
      and r = "processMessageCall destBridge (message (sample_claim 3000000)) ''0x1234'' (Some 3000000)"
      and txHash = "''0xabc1''"]
  by (simp add: sample_defs Number_def)

section \<open>Pause check\<close>

lemma requiresApproval_pause_independent:
  "fst (requiresApproval (env\<lparr>isBridgePaused := p\<rparr>) tok sp tid c) =
   fst (requiresApproval (env\<lparr>isBridgePaused := q\<rparr>) tok sp tid c)"
  by (simp add: requiresApproval_def io_defs chain_id_def split: sum.splits option.splits)

lemma requiresApproval_no_BridgePaused:
  "fst (io_raw (requiresApproval env tok sp tid c)) \<noteq> Inl (BridgePausedError m)"
  by (simp add: io_raw_unfold split: sum.splits)

lemma estimateGas_pause_independent:
  "fst (estimateGas (env\<lparr>isBridgePaused := p\<rparr>) a) = fst (estimateGas (env\<lparr>isBridgePaused := q\<rparr>) a)"
  by (simp add: estimateGas_def io_defs Let_def prepareTransaction_pause_independent
        io_bind_unfold [of "prepareTransaction _ _"] split: sum.splits prod.splits)

lemma estimateGas_no_BridgePaused:
  "fst (estimateGas env a) \<noteq> Inl (BridgePausedError m)"
  by (auto simp: estimateGas_def io_defs Let_def io_bind_unfold [of "prepareTransaction _ _"]
        split: sum.splits prod.splits dest: prepareTransaction_errors)

text \<open>
  C9. The pause check of \<^verbatim>\<open>requiresApproval\<close> and \<^verbatim>\<open>estimateGas\<close> is started and not awaited:
  what either returns or raises is the same whatever the pause check settles to, and it is
  never the bridge-paused error.
\<close>

theorem pause_check_not_awaited:
  "fst (requiresApproval (env\<lparr>isBridgePaused := p\<rparr>) tok sp tid c) =
     fst (requiresApproval (env\<lparr>isBridgePaused := q\<rparr>) tok sp tid c)
   \<and> fst (estimateGas (env\<lparr>isBridgePaused := p\<rparr>) a) = fst (estimateGas (env\<lparr>isBridgePaused := q\<rparr>) a)
   \<and> fst (io_raw (requiresApproval env tok sp tid c)) \<noteq> Inl (BridgePausedError m)
   \<and> fst (estimateGas env a) \<noteq> Inl (BridgePausedError m)"
  using requiresApproval_pause_independent [where env = env and p = p and q = q]
    estimateGas_pause_independent [where env = env and p = p and q = q]
    requiresApproval_no_BridgePaused estimateGas_no_BridgePaused
  by blast


section \<open>User rejection\<close>

lemma bridge_unfold:
  "bridge env a =
     (case fst (prepareTransaction env a) of
        Inl e \<Rightarrow> (Inl e, [])
      | Inr cp \<Rightarrow>
         (case fst (bridge_check env a (first_tokenId (tokenIds a))) of
            Inl e \<Rightarrow> (Inl e, snd (bridge_check env a (first_tokenId (tokenIds a))))
          | Inr u \<Rightarrow> (fst (bridge_send env a (fst cp) (snd cp)),
                      snd (bridge_check env a (first_tokenId (tokenIds a)))
                        @ snd (bridge_send env a (fst cp) (snd cp)))))"
  by (simp add: bridge_def Let_def io_bind_unfold prepareTransaction_trace
        split: sum.splits prod.splits)

lemma bridge_write_rejected:
  assumes "str_includes (toString e) ''denied transaction signature''"
    and "WriteContract c \<in> set (snd (bridge env a))" and "writeContract env c = Inl e"
  shows "fst (bridge env a) = Inl (UserRejectedRequestError e)"
proof (cases "fst (prepareTransaction env a)")
  case (Inl x)
  with assms(2) show ?thesis by (simp add: bridge_unfold)
next
  case (Inr cp)
  show ?thesis
  proof (cases "fst (bridge_check env a (first_tokenId (tokenIds a)))")
    case (Inl x)
    with Inr assms(2) show ?thesis by (simp add: bridge_unfold bridge_check_trace)
  next
    case ok: (Inr u)
    then obtain w cid where w: "wallet a = Some w" "chain w = Some cid"
      using bridge_check_ok by blast
    from assms(2) have "c = sendTokenCall (contract_address (fst cp)) (snd cp) (Some cid)"
      by (simp add: bridge_unfold Inr ok bridge_check_trace bridge_send_unfold [OF w])
    with assms(1,3) show ?thesis
      by (simp add: bridge_unfold Inr ok bridge_send_unfold [OF w] rethrow_rejection)
  qed
qed

lemma claim_call_rejected:
  assumes "str_includes (toString e) ''denied transaction signature''"
    and "(SimulateContract c \<in> set (snd (claim env a)) \<and> simulateContract env c = Inl e)
         \<or> (WriteContract c \<in> set (snd (claim env a)) \<and> writeContract env c = Inl e)"
  shows "fst (claim env a) = Inl (UserRejectedRequestError e)"
  using assms
  by (auto simp: claim_def io_defs Let_def claim_process_unfold rethrow_rejection
        split: sum.splits prod.splits if_splits)

lemma approve_call_rejected:
  assumes "str_includes (toString e) ''denied transaction signature''"
    and "(SimulateContract c \<in> set (snd (approve env tok sp w ids)) \<and> simulateContract env c = Inl e)
         \<or> (WriteContract c \<in> set (snd (approve env tok sp w ids)) \<and> writeContract env c = Inl e)"
  shows "fst (approve env tok sp w ids) = Inl (UserRejectedRequestError e)"
  using assms
  by (auto simp: approve_def io_defs Let_def approve_send_unfold rethrow_rejection
        requiresApproval_trace io_raw_unfold [of "requiresApproval _ _ _ _ _"]
        io_bind_unfold [of "case _ of Inl e \<Rightarrow> _ | Inr v \<Rightarrow> _"]
        split: sum.splits prod.splits if_splits option.splits)


text \<open>
  C6, as stated: any underlying error whose string form contains the phrase surfaces as the
  user-rejection error. In \<^verbatim>\<open>bridge\<close>, such an error of the canonical-token resolver is
  wrapped as the send-failed error.
\<close>

theorem user_rejection_counterexample:
  "str_includes (toString rejection) ''denied transaction signature''
   \<and> getCanonicalInfoForAddress (unresolved_env rejection) nft 167 1 = Inl rejection
   \<and> fst (bridge (unresolved_env rejection) (sample_args [1] True 0)) =
       Inl (SendERC721Error ''failed to bridge ERC721 token'' (Thrown rejection))
   \<and> fst (bridge (unresolved_env rejection) (sample_args [1] True 0)) \<noteq>
       Inl (UserRejectedRequestError rejection)"
  by (simp add: op_defs sample_defs io_defs)

lemma requiresApproval_trace_lookup:
  "GetCanonicalInfoForAddress t s d \<notin> set (snd (requiresApproval env tok sp tid n))"
  "EncodedSignalProof h n1 n2 \<notin> set (snd (requiresApproval env tok sp tid n))"
  by (simp_all add: requiresApproval_def io_defs chain_id_def split: sum.splits option.splits)

lemma requiresApproval_read_failed:
  assumes "ReadContract c \<in> set (snd (requiresApproval env tok sp tid n))"
    and "readContract env c = Inl e"
  shows "fst (requiresApproval env tok sp tid n) = Inl e"
  using assms
  by (auto simp: requiresApproval_def io_defs chain_id_def split: sum.splits option.splits)

lemma bridge_send_trace:
  "GetCanonicalInfoForAddress t s d \<notin> set (snd (bridge_send env a c p))"
  "ReadContract q \<notin> set (snd (bridge_send env a c p))"
  by (auto simp: bridge_send_def io_defs chain_id_def rethrow_def split: sum.splits option.splits)

lemma bridge_check_lookup_failed:
  assumes "GetCanonicalInfoForAddress t s d \<in> set (snd (bridge_check env a tid))"
    and "getCanonicalInfoForAddress env t s d = Inl e"
  shows "fst (bridge_check env a tid) = Inl (SendERC721Error ''failed to bridge ERC721 token'' (Thrown e))"
  using assms
  by (auto simp: bridge_check_def io_defs Let_def requiresApproval_trace_lookup
        io_raw_unfold [of "requiresApproval _ _ _ _ _"]
        split: sum.splits option.splits if_splits)

lemma bridge_check_read_failed:
  assumes "ReadContract c \<in> set (snd (bridge_check env a tid))"
    and "readContract env c = Inl e"
  shows "fst (bridge_check env a tid) = Inl (SendERC721Error ''failed to bridge ERC721 token'' (Thrown e))"
  using assms
  by (auto simp: bridge_check_def io_defs Let_def
        io_raw_unfold [of "requiresApproval _ _ _ _ _"]
        split: sum.splits option.splits if_splits dest: requiresApproval_read_failed)

lemma bridge_lookup_failed:
  assumes "GetCanonicalInfoForAddress t s d \<in> set (snd (bridge env a))"
    and "getCanonicalInfoForAddress env t s d = Inl e"
  shows "fst (bridge env a) = Inl (SendERC721Error ''failed to bridge ERC721 token'' (Thrown e))"
  using assms bridge_check_lookup_failed [of t s d env a "first_tokenId (tokenIds a)" e]
  by (auto simp: bridge_unfold bridge_send_trace split: sum.splits)

lemma bridge_read_failed:
  assumes "ReadContract c \<in> set (snd (bridge env a))"
    and "readContract env c = Inl e"
  shows "fst (bridge env a) = Inl (SendERC721Error ''failed to bridge ERC721 token'' (Thrown e))"
  using assms bridge_check_read_failed [of c env a "first_tokenId (tokenIds a)" e]
  by (auto simp: bridge_unfold bridge_send_trace split: sum.splits)

lemma approve_read_failed:
  assumes "ReadContract c \<in> set (snd (approve env tok sp w ids))"
    and "readContract env c = Inl e"
  shows "fst (approve env tok sp w ids) = Inl (Thrown e)"
  using assms
  by (auto simp: approve_def io_defs Let_def approve_send_unfold
        io_raw_unfold [of "requiresApproval _ _ _ _ _"]
        io_bind_unfold [of "case _ of Inl e \<Rightarrow> _ | Inr v \<Rightarrow> _"]
        split: sum.splits prod.splits if_splits option.splits dest: requiresApproval_read_failed)

lemma claim_check_failed:
  assumes "beforeClaiming env a = Inl e"
  shows "fst (claim env a) = Inl (Thrown e)"
  using assms
  by (simp add: claim_def io_defs)

lemma claim_proof_failed:
  assumes "EncodedSignalProof h n1 n2 \<in> set (snd (claim env a))"
    and "encodedSignalProof env h n1 n2 = Inl e"
  shows "fst (claim env a) = Inl (Thrown e)"
  using assms
  by (auto simp: claim_def io_defs Let_def claim_process_unfold
        split: sum.splits prod.splits if_splits)

lemma requiresApproval_simulate_independent:
  "requiresApproval (env\<lparr>simulateContract := sim\<rparr>) tok sp tid n = requiresApproval env tok sp tid n"
  by (simp add: requiresApproval_def pauseCheck_def)

lemma bridge_simulate_independent:
  "bridge (env\<lparr>simulateContract := sim\<rparr>) a = bridge env a"
proof -
  have p: "prepareTransaction (env\<lparr>simulateContract := sim\<rparr>) a = prepareTransaction env a"
    by (simp add: prepareTransaction_def Let_def split: option.splits)
  have c: "\<And>tid. bridge_check (env\<lparr>simulateContract := sim\<rparr>) a tid = bridge_check env a tid"
    by (auto simp: bridge_check_def io_defs Let_def requiresApproval_simulate_independent
          split: sum.splits option.splits)
  have s: "\<And>c p. bridge_send (env\<lparr>simulateContract := sim\<rparr>) a c p = bridge_send env a c p"
    by (simp add: bridge_send_def io_defs split: sum.splits)
  show ?thesis
    by (simp add: bridge_def p c s)
qed

text \<open>
  C6, amended: an error whose string form contains "denied transaction signature" is raised
  as the user-rejection error, and not as the operation's wrapper, when it comes from the
  write of \<^verbatim>\<open>bridge\<close> or from the simulation or the write of \<^verbatim>\<open>claim\<close> and \<^verbatim>\<open>approve\<close>. Coming
  from elsewhere it is not: from the canonical-info lookup or the approval read of \<^verbatim>\<open>bridge\<close>
  it is wrapped as the send-failed error; from the approval read of \<^verbatim>\<open>approve\<close>, the
  pre-claim check or the proof fetch of \<^verbatim>\<open>claim\<close> it reaches the caller unchanged; and
  whatever the simulation of \<^verbatim>\<open>bridge\<close> answers, \<^verbatim>\<open>bridge\<close> does and returns the same.
\<close>

theorem user_rejection_of_calls:
  assumes "str_includes (toString e) ''denied transaction signature''"
  shows "(WriteContract c \<in> set (snd (bridge env a)) \<and> writeContract env c = Inl e
            \<longrightarrow> fst (bridge env a) = Inl (UserRejectedRequestError e))
         \<and> ((SimulateContract c \<in> set (snd (claim env ca)) \<and> simulateContract env c = Inl e)
              \<or> (WriteContract c \<in> set (snd (claim env ca)) \<and> writeContract env c = Inl e)
            \<longrightarrow> fst (claim env ca) = Inl (UserRejectedRequestError e))
         \<and> ((SimulateContract c \<in> set (snd (approve env tok sp w ids)) \<and> simulateContract env c = Inl e)
              \<or> (WriteContract c \<in> set (snd (approve env tok sp w ids)) \<and> writeContract env c = Inl e)
            \<longrightarrow> fst (approve env tok sp w ids) = Inl (UserRejectedRequestError e))
         \<and> (GetCanonicalInfoForAddress t s d \<in> set (snd (bridge env a))
              \<and> getCanonicalInfoForAddress env t s d = Inl e
            \<longrightarrow> fst (bridge env a) = Inl (SendERC721Error ''failed to bridge ERC721 token'' (Thrown e)))
         \<and> (ReadContract c \<in> set (snd (bridge env a)) \<and> readContract env c = Inl e
            \<longrightarrow> fst (bridge env a) = Inl (SendERC721Error ''failed to bridge ERC721 token'' (Thrown e)))
         \<and> (ReadContract c \<in> set (snd (approve env tok sp w ids)) \<and> readContract env c = Inl e
            \<longrightarrow> fst (approve env tok sp w ids) = Inl (Thrown e))
         \<and> (beforeClaiming env ca = Inl e \<longrightarrow> fst (claim env ca) = Inl (Thrown e))
         \<and> (EncodedSignalProof h src dst \<in> set (snd (claim env ca)) \<and> encodedSignalProof env h src dst = Inl e
            \<longrightarrow> fst (claim env ca) = Inl (Thrown e))
         \<and> bridge (env\<lparr>simulateContract := sim\<rparr>) a = bridge env a"
proof -
  have calls: "(WriteContract c \<in> set (snd (bridge env a)) \<and> writeContract env c = Inl e
            \<longrightarrow> fst (bridge env a) = Inl (UserRejectedRequestError e))
         \<and> ((SimulateContract c \<in> set (snd (claim env ca)) \<and> simulateContract env c = Inl e)
              \<or> (WriteContract c \<in> set (snd (claim env ca)) \<and> writeContract env c = Inl e)
            \<longrightarrow> fst (claim env ca) = Inl (UserRejectedRequestError e))
         \<and> ((SimulateContract c \<in> set (snd (approve env tok sp w ids)) \<and> simulateContract env c = Inl e)
              \<or> (WriteContract c \<in> set (snd (approve env tok sp w ids)) \<and> writeContract env c = Inl e)
            \<longrightarrow> fst (approve env tok sp w ids) = Inl (UserRejectedRequestError e))"
    using bridge_write_rejected [OF assms] claim_call_rejected [OF assms] approve_call_rejected [OF assms]
    by blast
  have elsewhere: "(GetCanonicalInfoForAddress t s d \<in> set (snd (bridge env a))
              \<and> getCanonicalInfoForAddress env t s d = Inl e
            \<longrightarrow> fst (bridge env a) = Inl (SendERC721Error ''failed to bridge ERC721 token'' (Thrown e)))
         \<and> (ReadContract c \<in> set (snd (bridge env a)) \<and> readContract env c = Inl e
            \<longrightarrow> fst (bridge env a) = Inl (SendERC721Error ''failed to bridge ERC721 token'' (Thrown e)))
         \<and> (ReadContract c \<in> set (snd (approve env tok sp w ids)) \<and> readContract env c = Inl e
            \<longrightarrow> fst (approve env tok sp w ids) = Inl (Thrown e))
         \<and> (beforeClaiming env ca = Inl e \<longrightarrow> fst (claim env ca) = Inl (Thrown e))
         \<and> (EncodedSignalProof h src dst \<in> set (snd (claim env ca)) \<and> encodedSignalProof env h src dst = Inl e
            \<longrightarrow> fst (claim env ca) = Inl (Thrown e))"
    by (intro conjI impI; (elim conjE)?)
       (erule (1) bridge_lookup_failed, erule (1) bridge_read_failed, erule (1) approve_read_failed,
        erule claim_check_failed, erule (1) claim_proof_failed)
  from calls elsewhere bridge_simulate_independent show ?thesis
    by blast
qed

theorem user_rejection_of_calls_witness:
  "str_includes (toString rejection) ''denied transaction signature''
   \<and> fst (bridge (refusing_env zeroAddress zeroAddress NEW) (sample_args [1] True 0)) =
       Inl (UserRejectedRequestError rejection)
   \<and> fst (claim (refusing_env zeroAddress nft NEW) (sample_claim 3000000)) =
       Inl (UserRejectedRequestError rejection)
   \<and> fst (approve (refusing_env zeroAddress nft NEW) nft vault (Some sample_wallet) [1]) =
       Inl (UserRejectedRequestError rejection)
   \<and> fst (bridge (unresolved_env rejection) (sample_args [1] True 0)) =
       Inl (SendERC721Error ''failed to bridge ERC721 token'' (Thrown rejection))
   \<and> fst (bridge unread_env (sample_args [1] True 0)) =
       Inl (SendERC721Error ''failed to bridge ERC721 token'' (Thrown rejection))
   \<and> fst (approve unread_env nft vault (Some sample_wallet) [1]) = Inl (Thrown rejection)
   \<and> fst (claim unchecked_env (sample_claim 3000000)) = Inl (Thrown rejection)
   \<and> fst (claim unproved_env (sample_claim 3000000)) = Inl (Thrown rejection)
   \<and> simulateContract unsimulated_env (sendTokenCall vault (sample_op [1]) None) = Inl rejection
   \<and> bridge unsimulated_env (sample_args [1] True 0) =
       bridge (sample_env zeroAddress zeroAddress NEW) (sample_args [1] True 0)"
proof -
  have inc: "str_includes (toString rejection) ''denied transaction signature''"
    by (simp add: rejection_def toString_def)
  note at_rejection = user_rejection_of_calls [OF inc]
  have b: "WriteContract (sendTokenCall vault (sample_op [1]) (Some 167))
             \<in> set (snd (bridge (refusing_env zeroAddress zeroAddress NEW) (sample_args [1] True 0)))"
    by (simp add: op_defs sample_defs io_defs nft_def zeroAddress_def)
  have c: "WriteContract (processMessageCall destBridge (message (sample_claim 3000000)) ''0x1234'' (Some 3000000))
             \<in> set (snd (claim (refusing_env zeroAddress nft NEW) (sample_claim 3000000)))"
    by (simp add: op_defs sample_defs io_defs)
  have d: "WriteContract (approveCall nft vault (Some 1) 167)
             \<in> set (snd (approve (refusing_env zeroAddress nft NEW) nft vault (Some sample_wallet) [1]))"
    by (simp add: op_defs sample_defs io_defs zeroAddress_def)
  have w: "\<And>c. writeContract (refusing_env zeroAddress zeroAddress NEW) c = Inl rejection"
     "\<And>c. writeContract (refusing_env zeroAddress nft NEW) c = Inl rejection"
    by (simp_all add: sample_defs)
  have l: "GetCanonicalInfoForAddress nft 167 1
             \<in> set (snd (bridge (unresolved_env rejection) (sample_args [1] True 0)))"
     "getCanonicalInfoForAddress (unresolved_env rejection) nft 167 1 = Inl rejection"
    by (simp_all add: op_defs sample_defs io_defs)
  have r: "ReadContract (approvalQuery nft (Some 1) 167) \<in> set (snd (bridge unread_env (sample_args [1] True 0)))"
     "ReadContract (approvalQuery nft (Some 1) 167)
        \<in> set (snd (approve unread_env nft vault (Some sample_wallet) [1]))"
     "\<And>c. readContract unread_env c = Inl rejection"
    by (simp_all add: op_defs sample_defs io_defs)
  have p: "beforeClaiming unchecked_env (sample_claim 3000000) = Inl rejection"
     "EncodedSignalProof ''0xdead'' (Num 1) (Num 167) \<in> set (snd (claim unproved_env (sample_claim 3000000)))"
     "encodedSignalProof unproved_env ''0xdead'' (Num 1) (Num 167) = Inl rejection"
    by (simp_all add: op_defs sample_defs io_defs)
  have u: "simulateContract unsimulated_env (sendTokenCall vault (sample_op [1]) None) = Inl rejection"
     "unsimulated_env = (sample_env zeroAddress zeroAddress NEW)\<lparr>simulateContract := (\<lambda>c. Inl rejection)\<rparr>"
    by (simp_all add: unsimulated_env_def)
  have 1: "fst (bridge (refusing_env zeroAddress zeroAddress NEW) (sample_args [1] True 0)) =
       Inl (UserRejectedRequestError rejection)"
    using b w(1)
      at_rejection [where env = "refusing_env zeroAddress zeroAddress NEW"
        and a = "sample_args [1] True 0" and c = "sendTokenCall vault (sample_op [1]) (Some 167)",
        THEN conjunct1]
    by simp
  have 2: "fst (claim (refusing_env zeroAddress nft NEW) (sample_claim 3000000)) =
       Inl (UserRejectedRequestError rejection)"
    using c w(2)
      at_rejection [where env = "refusing_env zeroAddress nft NEW" and ca = "sample_claim 3000000"
        and c = "processMessageCall destBridge (message (sample_claim 3000000)) ''0x1234'' (Some 3000000)",
        THEN conjunct2, THEN conjunct1]
    by simp
  have 3: "fst (approve (refusing_env zeroAddress nft NEW) nft vault (Some sample_wallet) [1]) =
       Inl (UserRejectedRequestError rejection)"
    using d w(2)
      at_rejection [where env = "refusing_env zeroAddress nft NEW"
        and tok = nft and sp = vault and w = "Some sample_wallet" and ids = "[1]"
        and c = "approveCall nft vault (Some 1) 167",
        THEN conjunct2, THEN conjunct2, THEN conjunct1]
    by simp
  have 4: "fst (bridge (unresolved_env rejection) (sample_args [1] True 0)) =
       Inl (SendERC721Error ''failed to bridge ERC721 token'' (Thrown rejection))"
    using l
      at_rejection [where env = "unresolved_env rejection" and a = "sample_args [1] True 0"
        and t = nft and s = 167 and d = 1,
        THEN conjunct2, THEN conjunct2, THEN conjunct2, THEN conjunct1]
    by simp
  have 5: "fst (bridge unread_env (sample_args [1] True 0)) =
       Inl (SendERC721Error ''failed to bridge ERC721 token'' (Thrown rejection))"
    using r(1,3)
      at_rejection [where env = unread_env and a = "sample_args [1] True 0"
        and c = "approvalQuery nft (Some 1) 167",
        THEN conjunct2, THEN conjunct2, THEN conjunct2, THEN conjunct2, THEN conjunct1]
    by simp
  have 6: "fst (approve unread_env nft vault (Some sample_wallet) [1]) = Inl (Thrown rejection)"
    using r(2,3)
      at_rejection [where env = unread_env
        and tok = nft and sp = vault and w = "Some sample_wallet" and ids = "[1]"
        and c = "approvalQuery nft (Some 1) 167",
        THEN conjunct2, THEN conjunct2, THEN conjunct2, THEN conjunct2, THEN conjunct2, THEN conjunct1]
    by simp
  have 7: "fst (claim unchecked_env (sample_claim 3000000)) = Inl (Thrown rejection)"
    using p(1)
      at_rejection [where env = unchecked_env and ca = "sample_claim 3000000",
        THEN conjunct2, THEN conjunct2, THEN conjunct2, THEN conjunct2, THEN conjunct2, THEN conjunct2,
        THEN conjunct1]
    by simp
  have 8: "fst (claim unproved_env (sample_claim 3000000)) = Inl (Thrown rejection)"
    using p(2,3)
      at_rejection [where env = unproved_env and ca = "sample_claim 3000000"
        and h = "''0xdead''" and src = "Num 1" and dst = "Num 167",
        THEN conjunct2, THEN conjunct2, THEN conjunct2, THEN conjunct2, THEN conjunct2, THEN conjunct2,
        THEN conjunct2, THEN conjunct1]
    by simp
  have 9: "bridge unsimulated_env (sample_args [1] True 0) =
       bridge (sample_env zeroAddress zeroAddress NEW) (sample_args [1] True 0)"
    unfolding u(2)
    using at_rejection [where env = "sample_env zeroAddress zeroAddress NEW"
        and a = "sample_args [1] True 0" and sim = "\<lambda>c. Inl rejection",
        THEN conjunct2, THEN conjunct2, THEN conjunct2, THEN conjunct2, THEN conjunct2, THEN conjunct2,
        THEN conjunct2, THEN conjunct2]
    by simp
  from inc 1 2 3 4 5 6 7 8 u(1) 9 show ?thesis
    by simp
qed

section \<open>Empty token id lists\<close>

lemma io_bind_trace: "ev \<in> set (snd m) \<Longrightarrow> ev \<in> set (snd (io_bind m f))"
  by (simp add: io_bind_unfold split: sum.splits)

lemma approve_empty_query:
  assumes "account w = Some acc" and "chain w = Some cid"
    and "getWalletClient env = Inr client" and "chain client = Some cid'"
  shows "ReadContract (approvalQuery tok None cid') \<in> set (snd (approve env tok sp (Some w) []))"
  using assms
  by (auto simp: approve_def first_tokenId_def Let_def requiresApproval_connected [OF assms(3,4)]
        intro!: io_bind_trace split: sum.splits)

lemma bridge_empty_query:
  assumes "wallet a = Some w" and "account w = Some acc" and "chain w = Some cid"
    and "getWalletClient env = Inr client" and "chain client = Some cid'"
    and "tokenIds a = []"
    and "getCanonicalInfoForAddress env (token a) (srcChainId a) (destChainId a) = Inr (Some i)"
    and "info_address i = token a"
  shows "ReadContract (approvalQuery (token a) None cid') \<in> set (snd (bridge env a))"
proof -
  obtain c p where prep: "fst (prepareTransaction env a) = Inr (c, p)"
    using prepareTransaction_connected [OF assms(1,2), of env] by auto
  have "ReadContract (approvalQuery (token a) None cid') \<in> set (snd (bridge_check env a None))"
    using assms
    by (simp add: bridge_check_def io_defs Let_def requiresApproval_connected [OF assms(4,5)]
          split: sum.splits)
  then show ?thesis
    by (simp add: bridge_unfold prep assms(6) first_tokenId_def split: sum.splits)
qed

lemma bridge_write_descriptor:
  assumes "WriteContract c \<in> set (snd (bridge env a))"
  shows "\<exists>p. args c = SendTokenArgs p \<and> op_tokenIds p = tokenIds a"
proof (cases "fst (prepareTransaction env a)")
  case (Inl x)
  with assms show ?thesis by (simp add: bridge_unfold)
next
  case (Inr cp)
  then have ids: "op_tokenIds (snd cp) = tokenIds a"
    using prepareTransaction_tokenIds [of env a "fst cp" "snd cp"] by simp
  show ?thesis
  proof (cases "fst (bridge_check env a (first_tokenId (tokenIds a)))")
    case (Inl x)
    with Inr assms show ?thesis by (simp add: bridge_unfold bridge_check_trace)
  next
    case ok: (Inr u)
    then obtain w cid where w: "wallet a = Some w" "chain w = Some cid"
      using bridge_check_ok by blast
    from assms have "c = sendTokenCall (contract_address (fst cp)) (snd cp) (Some cid)"
      by (simp add: bridge_unfold Inr ok bridge_check_trace bridge_send_unfold [OF w])
    with ids show ?thesis by (simp add: sendTokenCall_def)
  qed
qed

text \<open>
  C10. Neither \<^verbatim>\<open>approve\<close> nor \<^verbatim>\<open>bridge\<close> looks at the length of the token id list. With an
  empty list and a connected wallet, \<^verbatim>\<open>approve\<close> gets as far as the \<^verbatim>\<open>getApproved\<close> read and its
  argument is an undefined token id; so does \<^verbatim>\<open>bridge\<close> for a native token; and a descriptor
  that \<^verbatim>\<open>bridge\<close> writes carries the empty list.
\<close>

theorem empty_tokenIds_not_checked:
  assumes "wallet a = Some w" and "account w = Some acc" and "chain w = Some cid"
    and "getWalletClient env = Inr client" and "chain client = Some cid'"
    and "tokenIds a = []"
  shows "ReadContract \<lparr>call_address = tok, call_abi = erc721ABI, functionName = ''getApproved'',
                       args = GetApprovedArgs None, chainId = Some cid', call_value = None, gas = None\<rparr>
           \<in> set (snd (approve env tok sp (Some w) []))
         \<and> (getCanonicalInfoForAddress env (token a) (srcChainId a) (destChainId a) = Inr (Some i)
              \<and> info_address i = token a
            \<longrightarrow> ReadContract \<lparr>call_address = token a, call_abi = erc721ABI, functionName = ''getApproved'',
                               args = GetApprovedArgs None, chainId = Some cid', call_value = None,
                               gas = None\<rparr>
                  \<in> set (snd (bridge env a)))
         \<and> (WriteContract c \<in> set (snd (bridge env a))
            \<longrightarrow> (\<exists>p. args c = SendTokenArgs p \<and> op_tokenIds p = []))"
  using approve_empty_query [OF assms(2,3,4,5)] bridge_empty_query [OF assms]
    bridge_write_descriptor [of c env a] assms(6)
  by (auto simp: approvalQuery_def)

theorem empty_tokenIds_not_checked_witness:
  "ReadContract \<lparr>call_address = nft, call_abi = erc721ABI, functionName = ''getApproved'',
                 args = GetApprovedArgs None, chainId = Some 167, call_value = None, gas = None\<rparr>
     \<in> set (snd (approve (sample_env zeroAddress nft NEW) nft vault (Some sample_wallet) []))
   \<and> ReadContract \<lparr>call_address = nft, call_abi = erc721ABI, functionName = ''getApproved'',
                   args = GetApprovedArgs None, chainId = Some 167, call_value = None, gas = None\<rparr>
     \<in> set (snd (bridge (sample_env zeroAddress nft NEW) (sample_args [] True 0)))
   \<and> WriteContract \<lparr>call_address = vault, call_abi = erc721VaultABI, functionName = ''sendToken'',
                    args = SendTokenArgs (sample_op []), chainId = Some 167, call_value = Some 0,
                    gas = None\<rparr>
     \<in> set (snd (bridge (sample_env zeroAddress zeroAddress NEW) (sample_args [] True 0)))
   \<and> op_tokenIds (sample_op []) = []"
proof -
  have wr: "WriteContract \<lparr>call_address = vault, call_abi = erc721VaultABI, functionName = ''sendToken'',
                    args = SendTokenArgs (sample_op []), chainId = Some 167, call_value = Some 0,
                    gas = None\<rparr>
     \<in> set (snd (bridge (sample_env zeroAddress zeroAddress NEW) (sample_args [] True 0)))"
    by (simp add: op_defs sample_defs io_defs sendTokenCall_def nft_def zeroAddress_def)
  show ?thesis
    using wr
      empty_tokenIds_not_checked [where a = "sample_args [] True 0" and w = sample_wallet
        and acc = "''0x70997970C51812dc3A010C7d01b50e0d17dc79C8''" and cid = 167
        and env = "sample_env zeroAddress nft NEW" and client = sample_wallet and cid' = 167
        and tok = nft and sp = vault and i = "CanonicalInfo 167 nft"]
      empty_tokenIds_not_checked [where a = "sample_args [] True 0" and w = sample_wallet
        and acc = "''0x70997970C51812dc3A010C7d01b50e0d17dc79C8''" and cid = 167
        and env = "sample_env zeroAddress zeroAddress NEW" and client = sample_wallet and cid' = 167
        and c = "\<lparr>call_address = vault, call_abi = erc721VaultABI, functionName = ''sendToken'',
                    args = SendTokenArgs (sample_op []), chainId = Some 167, call_value = Some 0,
                    gas = None\<rparr>"]
    by (simp add: sample_defs)
qed

end
